theory Spec2Isabelle
  imports Complex_Main
begin

section \<open>Data model of src/lib/webpage-impact/index.ts\<close>

text \<open>
  JavaScript numbers. The byte counts of the program (\<open>transferSize\<close>,
  \<open>encodedDataLength\<close>, the sums over them) are integral and are modelled as
  mathematical integers \<open>int\<close>: the model is exact as long as every sum stays below
  \<open>2 ^ 53\<close> in magnitude. The only division of the program produces a \<open>jsnum\<close>:
  a quotient that may be an exact rational, \<open>NaN\<close> or an infinity. The rounding of the
  quotient to the nearest double is not modelled.
\<close>

datatype jsnum = Finite rat | NaN | PosInfinity | NegInfinity

text \<open>The operator \<open>/\<close> of JavaScript on two integral numbers.\<close>

definition js_div :: "int \<Rightarrow> int \<Rightarrow> jsnum" where
  "js_div a b =
     (if b \<noteq> 0 then Finite (of_int a / of_int b)
      else if a = 0 then NaN
      else if 0 < a then PosInfinity
      else NegInfinity)"

text \<open>Truthiness of a \<open>number | undefined\<close>: \<open>undefined\<close>, \<open>0\<close> and \<open>NaN\<close> are falsy.\<close>

fun truthy :: "jsnum option \<Rightarrow> bool" where
  "truthy None = False"
| "truthy (Some NaN) = False"
| "truthy (Some (Finite q)) = (q \<noteq> 0)"
| "truthy (Some PosInfinity) = True"
| "truthy (Some NegInfinity) = True"

text \<open>
  Modelled from the spec: the type \<open>ResourceType\<close> is imported from puppeteer and its
  declaration is not part of the repository; the closed set of resource kinds is the one
  the spec lists.
\<close>

datatype ResourceType =
    Document | Stylesheet | Image | Media | Font | Script | Texttrack | Xhr | Fetch
  | Eventsource | Websocket | Manifest | Signedexchange | Ping | Cspviolationreport
  | Preflight | Other

record ResourceBase =
  url :: string
  resourceSize :: nat
  type :: ResourceType
  fromCache :: bool
  fromServiceWorker :: bool

record Resource = ResourceBase +
  transferSize :: int

record Metrics =
  pageWeight :: int
  resourceTypeWeights :: "(ResourceType \<times> int) list"
  dataReloadRatio :: "jsnum option"

section \<open>computeMetrics\<close>

text \<open>
  The object \<open>resourceTypeWeights\<close> is an association list in insertion order, which is
  the order \<open>Object.values\<close> enumerates string keys in. The first reducer of
  \<open>computeMetrics\<close>: \<open>resource.type in acc\<close> selects between \<open>+=\<close> on the existing
  key and the creation of a new key at the end.
\<close>

definition addResourceTypeWeight ::
  "(ResourceType \<times> int) list \<Rightarrow> Resource \<Rightarrow> (ResourceType \<times> int) list" where
  "addResourceTypeWeight acc resource =
     (if type resource \<in> set (map fst acc)
      then map (\<lambda>(k, v). if k = type resource then (k, v + transferSize resource) else (k, v)) acc
      else acc @ [(type resource, transferSize resource)])"

definition computeMetrics :: "Resource list \<Rightarrow> Resource list \<Rightarrow> bool \<Rightarrow> Metrics" where
  "computeMetrics initialResources reloadResources computeReloadRatio =
     (let resourceTypeWeights = foldl addResourceTypeWeight [] initialResources;
          initialPageWeight =
            foldl (\<lambda>acc resourceTypeSize. acc + resourceTypeSize) 0 (map snd resourceTypeWeights);
          dataReloadRatio =
            (if computeReloadRatio then
               (let reloadPageWeight =
                      foldl (\<lambda>acc resource. acc + transferSize resource) 0 reloadResources;
                    assumeFromCache = initialPageWeight - reloadPageWeight;
                    browserCache =
                      foldl (\<lambda>acc resource.
                               acc + (if fromCache resource then transferSize resource else 0))
                            0 reloadResources;
                    assumedCacheWeight = assumeFromCache + browserCache
                in Some (js_div (initialPageWeight - assumedCacheWeight) initialPageWeight))
             else None)
      in \<lparr>pageWeight = initialPageWeight,
          resourceTypeWeights = resourceTypeWeights,
          dataReloadRatio = dataReloadRatio\<rparr>)"

text \<open>
  Console output is modelled as the list of messages written, each with the arguments
  of the call.
\<close>

datatype console_message = Warn "string list" | Error "string list"

text \<open>
  The console output of \<open>computeMetrics\<close>: one warning when the initial load holds
  bytes flagged as served from the cache, and only when the ratio is computed.
\<close>

definition computeMetrics_console :: "Resource list \<Rightarrow> bool \<Rightarrow> console_message list" where
  "computeMetrics_console initialResources computeReloadRatio =
     (if computeReloadRatio \<and>
         0 < foldl (\<lambda>acc resource.
                      acc + (if fromCache resource then transferSize resource else 0))
                   0 initialResources
      then [Warn [''Initial page load contained resources from cache.'']]
      else [])"

section \<open>The two maps of the Chrome devtools protocol session\<close>

text \<open>
  \<open>cdpIntermediateStore\<close> maps a request id to \<open>{url}\<close> and \<open>cdpResponses\<close> maps a
  url to \<open>{encodedDataLength}\<close>. Each stored object has one field and is represented by
  that field; an object is truthy, so \<open>response && ...\<close> and \<open>cdpResponse ? ... : ...\<close>
  test exactly whether \<open>get\<close> found the key.
\<close>

record CdpMaps =
  cdpIntermediateStore :: "string \<rightharpoonup> string"
  cdpResponses :: "string \<rightharpoonup> int"

datatype CdpEvent =
    ResponseReceived string string  \<comment> \<open>\<open>event.requestId\<close>, \<open>event.response.url\<close>\<close>
  | LoadingFinished string int      \<comment> \<open>\<open>event.requestId\<close>, \<open>event.encodedDataLength\<close>\<close>

definition cdpInitial :: CdpMaps where
  "cdpInitial = \<lparr>cdpIntermediateStore = Map.empty, cdpResponses = Map.empty\<rparr>"

text \<open>The listeners on \<open>Network.responseReceived\<close> and \<open>Network.loadingFinished\<close>.\<close>

fun cdpListener :: "CdpMaps \<Rightarrow> CdpEvent \<Rightarrow> CdpMaps" where
  "cdpListener maps (ResponseReceived requestId responseUrl) =
     maps\<lparr>cdpIntermediateStore := (cdpIntermediateStore maps)(requestId \<mapsto> responseUrl)\<rparr>"
| "cdpListener maps (LoadingFinished requestId encodedDataLength) =
     (case cdpIntermediateStore maps requestId of
        None \<Rightarrow> maps
      | Some responseUrl \<Rightarrow>
          maps\<lparr>cdpResponses := (cdpResponses maps)(responseUrl \<mapsto> encodedDataLength)\<rparr>)"

definition cdpSession :: "CdpEvent list \<Rightarrow> CdpMaps" where
  "cdpSession events = foldl cdpListener cdpInitial events"

text \<open>The request ids for which a sequence of events holds a \<open>Network.responseReceived\<close>.\<close>

fun receivedIds :: "CdpEvent list \<Rightarrow> string set" where
  "receivedIds [] = {}"
| "receivedIds (ResponseReceived requestId responseUrl # events) =
     insert requestId (receivedIds events)"
| "receivedIds (LoadingFinished requestId encodedDataLength # events) = receivedIds events"

section \<open>mergeCdpResponsesIntoResources\<close>

text \<open>
  The callback of \<open>pageResources.map\<close>: the messages it writes to the console and the
  \<open>Resource\<close> it returns.
\<close>

definition mergeResource ::
  "(string \<rightharpoonup> int) \<Rightarrow> ResourceBase \<Rightarrow> console_message list \<times> Resource" where
  "mergeResource responses resource =
     (case responses (url resource) of
        None \<Rightarrow>
          ([Warn [''No encoded data length for resource: '', url resource]],
           \<lparr>url = url resource, resourceSize = resourceSize resource, type = type resource,
            fromCache = fromCache resource, fromServiceWorker = fromServiceWorker resource,
            transferSize = 0\<rparr>)
      | Some encodedDataLength \<Rightarrow>
          ([],
           \<lparr>url = url resource, resourceSize = resourceSize resource, type = type resource,
            fromCache = fromCache resource, fromServiceWorker = fromServiceWorker resource,
            transferSize = encodedDataLength\<rparr>))"

definition mergeCdpResponsesIntoResources ::
  "ResourceBase list \<Rightarrow> (string \<rightharpoonup> int) \<Rightarrow> Resource list" where
  "mergeCdpResponsesIntoResources pageResources responses =
     map (\<lambda>resource. snd (mergeResource responses resource)) pageResources"

definition mergeCdpResponsesIntoResources_console ::
  "ResourceBase list \<Rightarrow> (string \<rightharpoonup> int) \<Rightarrow> console_message list" where
  "mergeCdpResponsesIntoResources_console pageResources responses =
     concat (map (\<lambda>resource. fst (mergeResource responses resource)) pageResources)"

section \<open>The response handler of loadPageResources\<close>

text \<open>
  What the handler reads from a puppeteer \<open>HTTPResponse\<close>. \<open>response_buffer\<close> is the
  length of the body that \<open>response.buffer()\<close> resolves to, or \<open>None\<close> when the read
  is rejected.
\<close>

record HTTPResponse =
  response_url :: string
  response_status :: nat
  response_buffer :: "nat option"
  response_fromCache :: bool
  response_fromServiceWorker :: bool
  request_url :: string
  request_method :: string
  request_resourceType :: ResourceType

definition NON_NETWORK_SCHEMES :: "string list" where
  "NON_NETWORK_SCHEMES =
     [''blob'', ''data'', ''intent'', ''file'', ''filesystem'', ''chrome-extension'']"

definition startsWith :: "string \<Rightarrow> string \<Rightarrow> bool" where
  "startsWith s p = (take (length p) s = p)"

definition isFromNonNetworkRequest :: "HTTPResponse \<Rightarrow> bool" where
  "isFromNonNetworkRequest response =
     list_ex (\<lambda>scheme. startsWith (request_url response) (scheme @ '':''))
       NON_NETWORK_SCHEMES"

definition hasNoResponseBody :: "HTTPResponse \<Rightarrow> bool" where
  "hasNoResponseBody response =
     (response_status response = 204 \<and>
      response_status response = 304 \<and>
      request_method response \<noteq> ''OPTIONS'')"

text \<open>
  One run of the handler on the list \<open>pageResources\<close>. A rejected body read is caught
  inside the handler (an error is logged) and the list is left as it was. The handlers
  are asynchronous; each pushes at most once, after its body read, so a navigation is the
  sequence of responses in the order in which their handlers complete.
\<close>

definition responseHandler :: "ResourceBase list \<Rightarrow> HTTPResponse \<Rightarrow> ResourceBase list" where
  "responseHandler pageResources response =
     (if isFromNonNetworkRequest response \<or> hasNoResponseBody response then pageResources
      else
        (case response_buffer response of
           None \<Rightarrow> pageResources
         | Some bufferLength \<Rightarrow>
             pageResources @
               [\<lparr>url = response_url response,
                 resourceSize = bufferLength,
                 type = request_resourceType response,
                 fromCache = response_fromCache response,
                 fromServiceWorker = response_fromServiceWorker response\<rparr>]))"

definition recordResponses :: "HTTPResponse list \<Rightarrow> ResourceBase list" where
  "recordResponses responses = foldl responseHandler [] responses"

text \<open>
  Follows the spec's words: the scheme of a URL is the text before its first colon, and a
  URL has a non-network scheme when that text is one of the fixed set.
\<close>

definition url_scheme :: "string \<Rightarrow> string option" where
  "url_scheme u =
     (if CHR '':'' \<in> set u then Some (takeWhile (\<lambda>c. c \<noteq> CHR '':'') u) else None)"

definition hasNonNetworkScheme :: "string \<Rightarrow> bool" where
  "hasNonNetworkScheme u =
     (case url_scheme u of None \<Rightarrow> False | Some scheme \<Rightarrow> scheme \<in> set NON_NETWORK_SCHEMES)"

section \<open>loadPageResources, measurePageImpactMetrics and execute\<close>

text \<open>
  The browser is the environment of the program. One navigation is what the browser did
  during it: the error that one of the puppeteer calls threw, if any, the responses
  handled before the listener was removed, and the events of the devtools session.
  A failure outside the two navigations (launching the browser, opening the page, the
  lighthouse run) is not modelled.
\<close>

record Navigation =
  nav_failure :: "string option"
  nav_responses :: "HTTPResponse list"
  nav_events :: "CdpEvent list"

datatype error =
    BrowserError string
  | MeasurementOfWebpage error           \<comment> \<open>\<open>Error during measurement of webpage: ...\<close>\<close>
  | MeasurementOfWebpageImpact error     \<comment> \<open>\<open>Error during measurement of webpage impact metrics: ...\<close>\<close>

definition loadPageResources :: "Navigation \<Rightarrow> error + Resource list" where
  "loadPageResources nav =
     (case nav_failure nav of
        Some cause \<Rightarrow> Inl (MeasurementOfWebpage (BrowserError cause))
      | None \<Rightarrow>
          Inr (mergeCdpResponsesIntoResources
                 (recordResponses (nav_responses nav))
                 (cdpResponses (cdpSession (nav_events nav)))))"

text \<open>
  The validated configuration, as far as the measurement reads it for the reload ratio:
  \<open>config?.options?.dataReloadRatio\<close>. The other keys of the configuration (timeout,
  device and network emulation, headers, lighthouse) steer the browser and are part of the
  environment here.
\<close>

record ConfigOptions =
  options_dataReloadRatio :: "jsnum option"

record Config =
  config_options :: "ConfigOptions option"

definition config_dataReloadRatio :: "Config option \<Rightarrow> jsnum option" where
  "config_dataReloadRatio config =
     (case config of
        None \<Rightarrow> None
      | Some c \<Rightarrow>
          (case config_options c of
             None \<Rightarrow> None
           | Some opts \<Rightarrow> options_dataReloadRatio opts))"

definition computeReloadRatio :: "Config option \<Rightarrow> bool" where
  "computeReloadRatio config = (\<not> truthy (config_dataReloadRatio config))"

definition measurePageImpactMetrics ::
  "Config option \<Rightarrow> Navigation \<Rightarrow> Navigation \<Rightarrow> error + Metrics" where
  "measurePageImpactMetrics config initialLoad reload =
     (case loadPageResources initialLoad of
        Inl e \<Rightarrow> Inl (MeasurementOfWebpageImpact e)
      | Inr initialResources \<Rightarrow>
          (case loadPageResources reload of
             Inl e \<Rightarrow> Inl (MeasurementOfWebpageImpact e)
           | Inr reloadedResources \<Rightarrow>
               Inr (computeMetrics initialResources reloadedResources
                      (computeReloadRatio config))))"

text \<open>
  The values of the \<open>options\<close> object of an input and of an output: \<open>undefined\<close>, a
  number, or any other value. An input is represented by its \<open>options\<close> (absent is
  \<open>None\<close>); an output by the three keys that \<open>execute\<close> sets. The remaining keys of the
  input are copied to the output unchanged and the optional lighthouse report does not
  depend on the metrics; both are left out.
\<close>

datatype 'a jsval = Undefined | Number jsnum | OtherValue 'a

fun jsval_of :: "jsnum option \<Rightarrow> 'a jsval" where
  "jsval_of None = Undefined"
| "jsval_of (Some n) = Number n"

record 'a PluginOutput =
  network_data_bytes :: int
  network_data_resources_bytes :: "(ResourceType \<times> int) list"
  output_options :: "(string \<rightharpoonup> 'a jsval) option"

text \<open>
  The body of the \<open>inputs.map\<close> callback of \<open>execute\<close> for one input, on the merged
  and validated configuration. The key \<open>options\<close> is written when the input has options
  or the measured \<open>dataReloadRatio\<close> is truthy, as the spread of the input's options
  followed by the key \<open>dataReloadRatio\<close>; otherwise the output keeps what the input had,
  which is then no options.
\<close>

definition execute_input ::
  "Config option \<Rightarrow> (string \<rightharpoonup> 'a jsval) option \<Rightarrow> Navigation \<Rightarrow> Navigation
     \<Rightarrow> error + 'a PluginOutput" where
  "execute_input mergedValidatedConfig input_options initialLoad reload =
     (case measurePageImpactMetrics mergedValidatedConfig initialLoad reload of
        Inl e \<Rightarrow> Inl e
      | Inr metrics \<Rightarrow>
          Inr \<lparr>network_data_bytes = pageWeight metrics,
               network_data_resources_bytes = resourceTypeWeights metrics,
               output_options =
                 (if input_options \<noteq> None \<or> truthy (dataReloadRatio metrics)
                  then Some ((case input_options of None \<Rightarrow> Map.empty | Some opts \<Rightarrow> opts)
                               (''dataReloadRatio'' \<mapsto> jsval_of (dataReloadRatio metrics)))
                  else input_options)\<rparr>)"

section \<open>Example inputs\<close>

text \<open>The two resource lists of the spec's worked example, and two other reloads.\<close>

definition resource :: "string \<Rightarrow> ResourceType \<Rightarrow> int \<Rightarrow> bool \<Rightarrow> Resource" where
  "resource u t n c =
     \<lparr>url = u, resourceSize = nat n, type = t, fromCache = c, fromServiceWorker = False,
      transferSize = n\<rparr>"

definition example_initial :: "Resource list" where
  "example_initial =
     [resource ''https://example.org/logo.png'' Image 100 False,
      resource ''https://example.org/app.js'' Script 50 False]"

definition example_reload :: "Resource list" where
  "example_reload =
     [resource ''https://example.org/logo.png'' Image 0 True,
      resource ''https://example.org/app.js'' Script 50 False]"

definition example_reload_idle :: "Resource list" where
  "example_reload_idle =
     [resource ''https://example.org/logo.png'' Image 0 False,
      resource ''https://example.org/app.js'' Script 0 False]"

definition example_reload_grown :: "Resource list" where
  "example_reload_grown =
     [resource ''https://example.org/logo.png'' Image 250 False,
      resource ''https://example.org/app.js'' Script 50 False]"

text \<open>
  Responses, devtools events, a navigation made of them, and a configuration that supplies
  a reload ratio of one half.
\<close>

definition response :: "string \<Rightarrow> nat \<Rightarrow> string \<Rightarrow> ResourceType \<Rightarrow> nat option \<Rightarrow> HTTPResponse" where
  "response u status method t body =
     \<lparr>response_url = u, response_status = status, response_buffer = body,
      response_fromCache = False, response_fromServiceWorker = False,
      request_url = u, request_method = method, request_resourceType = t\<rparr>"

definition example_response_204 :: HTTPResponse where
  "example_response_204 = response ''https://example.org/beacon'' 204 ''GET'' Xhr (Some 0)"

definition example_responses :: "HTTPResponse list" where
  "example_responses =
     [response ''https://example.org/app.js'' 200 ''GET'' Script (Some 120),
      response ''data:image/png;base64,AAAA'' 200 ''GET'' Image (Some 3),
      response ''https://example.org/logo.png'' 200 ''GET'' Image (Some 400)]"

definition example_events :: "CdpEvent list" where
  "example_events =
     [ResponseReceived ''1'' ''https://example.org/app.js'',
      LoadingFinished ''1'' 50]"

definition example_navigation :: Navigation where
  "example_navigation =
     \<lparr>nav_failure = None, nav_responses = example_responses, nav_events = example_events\<rparr>"

definition example_config :: "Config option" where
  "example_config =
     Some \<lparr>config_options = Some \<lparr>options_dataReloadRatio = Some (Finite (1 / 2))\<rparr>\<rparr>"


text \<open>A recorded resource list and a map of finished transfers that knows one of its urls.\<close>

definition resourceBase :: "string \<Rightarrow> ResourceType \<Rightarrow> nat \<Rightarrow> ResourceBase" where
  "resourceBase u t n =
     \<lparr>url = u, resourceSize = n, type = t, fromCache = False, fromServiceWorker = False\<rparr>"

definition example_pageResources :: "ResourceBase list" where
  "example_pageResources =
     [resourceBase ''https://example.org/app.js'' Script 120,
      resourceBase ''https://example.org/logo.png'' Image 400]"

definition example_cdpResponses :: "string \<rightharpoonup> int" where
  "example_cdpResponses = [''https://example.org/app.js'' \<mapsto> 50]"

text \<open>
  The options of an input that carries a reload ratio itself, and a configuration that
  supplies the ratio 0.
\<close>

definition example_input_options :: "(string \<rightharpoonup> unit jsval) option" where
  "example_input_options = Some [''dataReloadRatio'' \<mapsto> Number (Finite (1 / 2))]"

definition example_config_zero :: "Config option" where
  "example_config_zero =
     Some \<lparr>config_options = Some \<lparr>options_dataReloadRatio = Some (Finite 0)\<rparr>\<rparr>"

section \<open>Properties of computeMetrics\<close>

lemma foldl_plus_sum_list:
  "foldl (\<lambda>acc x. acc + f x) (a::int) xs = a + sum_list (map f xs)"
  by (induction xs arbitrary: a) simp_all

lemma map_fst_bump:
  "map fst (map (\<lambda>(k, v). if k = t then (k, v + w) else (k, v)) acc) = map fst acc"
  by (induction acc) auto

lemma addResourceTypeWeight_distinct:
  "distinct (map fst acc) \<Longrightarrow> distinct (map fst (addResourceTypeWeight acc r))"
  unfolding addResourceTypeWeight_def
  by (simp only: map_fst_bump split: if_split) simp

lemma sum_list_bump:
  "distinct (map fst acc) \<Longrightarrow> t \<in> set (map fst acc) \<Longrightarrow>
   sum_list (map snd (map (\<lambda>(k, v). if k = t then (k, v + w) else (k, v)) acc))
     = sum_list (map snd acc) + (w::int)"
proof (induction acc)
  case Nil
  then show ?case by simp
next
  case (Cons p acc)
  obtain k v where p: "p = (k, v)" by (cases p)
  show ?case
  proof (cases "k = t")
    case True
    with Cons.prems p have "t \<notin> set (map fst acc)" by simp
    then have "map (\<lambda>(k, v). if k = t then (k, v + w) else (k, v)) acc = acc"
      by (induction acc) auto
    with True p show ?thesis by simp
  next
    case False
    with Cons p show ?thesis by simp
  qed
qed

lemma addResourceTypeWeight_sum:
  "distinct (map fst acc) \<Longrightarrow>
   sum_list (map snd (addResourceTypeWeight acc r)) = sum_list (map snd acc) + transferSize r"
  using sum_list_bump [of acc "type r" "transferSize r"]
  by (simp add: addResourceTypeWeight_def)

lemma foldl_addResourceTypeWeight:
  "distinct (map fst acc) \<Longrightarrow>
   distinct (map fst (foldl addResourceTypeWeight acc rs)) \<and>
   sum_list (map snd (foldl addResourceTypeWeight acc rs))
     = sum_list (map snd acc) + sum_list (map transferSize rs)"
proof (induction rs arbitrary: acc)
  case Nil
  then show ?case by simp
next
  case (Cons r rs)
  from Cons.prems have d: "distinct (map fst (addResourceTypeWeight acc r))"
    by (rule addResourceTypeWeight_distinct)
  from Cons.IH [OF d] addResourceTypeWeight_sum [OF Cons.prems, of r]
  show ?case by simp
qed

lemma pageWeight_computeMetrics:
  "pageWeight (computeMetrics initial reload c) = sum_list (map transferSize initial)"
  using foldl_addResourceTypeWeight [of "[]" initial]
    foldl_plus_sum_list [of "\<lambda>x. x" 0]
  by (simp add: computeMetrics_def Let_def)

lemma resourceTypeWeights_computeMetrics:
  "resourceTypeWeights (computeMetrics initial reload c) = foldl addResourceTypeWeight [] initial"
  by (simp add: computeMetrics_def Let_def)

lemma sum_list_fromCache:
  "sum_list (map (\<lambda>r. if fromCache r then transferSize r else 0) rs)
     = sum_list (map transferSize (filter fromCache rs))"
  by (induction rs) simp_all

lemma dataReloadRatio_computeMetrics:
  "dataReloadRatio (computeMetrics initial reload c) =
     (if c then
        Some (js_div
          (pageWeight (computeMetrics initial reload c)
             - ((pageWeight (computeMetrics initial reload c) - sum_list (map transferSize reload))
                + sum_list (map transferSize (filter fromCache reload))))
          (pageWeight (computeMetrics initial reload c)))
      else None)"
  by (simp add: computeMetrics_def Let_def foldl_plus_sum_list sum_list_fromCache)

text \<open>
  Claim C2. For every initial resource list, the \<open>pageWeight\<close> that \<open>computeMetrics\<close>
  returns is the sum of the values of the returned \<open>resourceTypeWeights\<close>, and it is the
  sum of \<open>transferSize\<close> over the initial resources, also when several resources have
  the same type.
\<close>

theorem pageWeight_sum_of_resourceTypeWeights:
  "pageWeight (computeMetrics initial reload c)
     = sum_list (map snd (resourceTypeWeights (computeMetrics initial reload c)))
   \<and> pageWeight (computeMetrics initial reload c) = sum_list (map transferSize initial)"
  using foldl_addResourceTypeWeight [of "[]" initial]
  by (simp add: pageWeight_computeMetrics resourceTypeWeights_computeMetrics)

lemmas example_defs = resource_def example_initial_def example_reload_def
  example_reload_idle_def example_reload_grown_def

lemma sum_list_not_fromCache:
  "sum_list (map transferSize rs) - sum_list (map transferSize (filter fromCache rs))
     = sum_list (map transferSize (filter (\<lambda>r. \<not> fromCache r) rs))"
  by (induction rs) simp_all

lemma dataReloadRatio_not_cached:
  "dataReloadRatio (computeMetrics initial reload True) =
     Some (js_div (sum_list (map transferSize (filter (\<lambda>r. \<not> fromCache r) reload)))
                  (pageWeight (computeMetrics initial reload True)))"
proof -
  have "p - (p - a + b) = a - b" for p a b :: int by simp
  then show ?thesis
    by (simp only: dataReloadRatio_computeMetrics if_True sum_list_not_fromCache)
qed

text \<open>
  Claim C1. With \<open>computeReloadRatio\<close> true and a \<open>pageWeight\<close> other than zero,
  \<open>computeMetrics\<close> returns \<open>dataReloadRatio = (pageWeight - assumedCacheWeight) /
  pageWeight\<close>, where \<open>assumedCacheWeight\<close> is \<open>pageWeight\<close> minus the sum of
  \<open>transferSize\<close> over the reload resources, plus the sum of \<open>transferSize\<close> over the
  reload resources flagged \<open>fromCache\<close>. On the worked example the ratio is
  \<open>(150 - 100) / 150 = 1 / 3\<close>.
\<close>

theorem dataReloadRatio_formula:
  assumes "pageWeight (computeMetrics initial reload True) \<noteq> 0"
  shows "dataReloadRatio (computeMetrics initial reload True) =
     Some (Finite
       (of_int (pageWeight (computeMetrics initial reload True)
                - ((pageWeight (computeMetrics initial reload True)
                      - sum_list (map transferSize reload))
                   + sum_list (map transferSize (filter fromCache reload))))
        / of_int (pageWeight (computeMetrics initial reload True))))"
  using assms by (simp add: dataReloadRatio_computeMetrics js_div_def)

text \<open>The worked example: type weights 100 and 50, page weight 150, ratio one third.\<close>

theorem dataReloadRatio_formula_example:
  "pageWeight (computeMetrics example_initial example_reload True) \<noteq> 0
   \<and> resourceTypeWeights (computeMetrics example_initial example_reload True)
       = [(Image, 100), (Script, 50)]
   \<and> pageWeight (computeMetrics example_initial example_reload True) = 150
   \<and> dataReloadRatio (computeMetrics example_initial example_reload True)
       = Some (Finite (1 / 3))"
  using dataReloadRatio_formula [of example_initial example_reload]
  by (simp add: pageWeight_computeMetrics resourceTypeWeights_computeMetrics
      addResourceTypeWeight_def example_defs)

text \<open>
  Claim C3, as the spec states it: when \<open>pageWeight\<close> is 0 the returned ratio is 1.0.
  It fails on the empty page: \<open>computeMetrics\<close> divides \<open>0\<close> by \<open>0\<close> and returns
  \<open>NaN\<close>.
\<close>

theorem dataReloadRatio_empty_page_NaN:
  "pageWeight (computeMetrics [] [] True) = 0
   \<and> dataReloadRatio (computeMetrics [] [] True) = Some NaN
   \<and> dataReloadRatio (computeMetrics [] [] True) \<noteq> Some (Finite 1)"
  by (simp add: computeMetrics_def js_div_def)

text \<open>
  Claim C3, amended. With \<open>computeReloadRatio\<close> true and \<open>pageWeight = 0\<close> the division
  is not guarded: the returned ratio is \<open>NaN\<close> when the reload resources not flagged
  \<open>fromCache\<close> transfer 0 bytes in total, \<open>+Infinity\<close> when they transfer more, and
  \<open>-Infinity\<close> when the total is negative. It is never a finite number, so never 1.0.
\<close>

theorem dataReloadRatio_zero_pageWeight:
  assumes "pageWeight (computeMetrics initial reload True) = 0"
  shows "dataReloadRatio (computeMetrics initial reload True) =
     (let n = sum_list (map transferSize (filter (\<lambda>r. \<not> fromCache r) reload))
      in Some (if n = 0 then NaN else if 0 < n then PosInfinity else NegInfinity))
     \<and> (\<forall>q. dataReloadRatio (computeMetrics initial reload True) \<noteq> Some (Finite q))"
  using assms by (simp add: dataReloadRatio_not_cached js_div_def Let_def)

text \<open>An empty initial load followed by the example reload: 50 bytes over 0.\<close>

theorem dataReloadRatio_zero_pageWeight_example:
  "pageWeight (computeMetrics [] example_reload True) = 0
   \<and> dataReloadRatio (computeMetrics [] example_reload True) = Some PosInfinity"
  using dataReloadRatio_zero_pageWeight [of "[]" example_reload]
  by (simp add: pageWeight_computeMetrics example_defs)

text \<open>
  Claim C4, as the spec states it: with \<open>pageWeight > 0\<close>, a reload whose resources all
  have \<open>transferSize\<close> 0 and no \<open>fromCache\<close> flag gives the ratio 1.0, and the ratio
  never exceeds 1. Both parts fail: the idle reload gives 0, and a reload that transfers 300
  bytes after an initial load of 150 gives 2.
\<close>

theorem dataReloadRatio_idle_reload_zero:
  "0 < pageWeight (computeMetrics example_initial example_reload_idle True)
   \<and> list_all (\<lambda>r. transferSize r = 0 \<and> \<not> fromCache r) example_reload_idle
   \<and> dataReloadRatio (computeMetrics example_initial example_reload_idle True)
        = Some (Finite 0)
   \<and> 0 < pageWeight (computeMetrics example_initial example_reload_grown True)
   \<and> dataReloadRatio (computeMetrics example_initial example_reload_grown True)
        = Some (Finite 2)"
  by (simp add: dataReloadRatio_not_cached pageWeight_computeMetrics js_div_def example_defs)

text \<open>
  Claim C4, amended. With \<open>computeReloadRatio\<close> true and \<open>pageWeight > 0\<close> the ratio is
  the sum of \<open>transferSize\<close> over the reload resources not flagged \<open>fromCache\<close>,
  divided by \<open>pageWeight\<close>. It is 0 when every reload resource has \<open>transferSize\<close> 0,
  it is at least 0 when no reload \<open>transferSize\<close> is negative, and it is at most 1
  exactly when those bytes do not exceed \<open>pageWeight\<close>.
\<close>

theorem dataReloadRatio_share_not_cached:
  assumes "0 < pageWeight (computeMetrics initial reload True)"
  shows "dataReloadRatio (computeMetrics initial reload True)
       = Some (Finite (of_int (sum_list (map transferSize (filter (\<lambda>r. \<not> fromCache r) reload)))
                       / of_int (pageWeight (computeMetrics initial reload True))))
     \<and> (list_all (\<lambda>r. transferSize r = 0) reload \<longrightarrow>
          dataReloadRatio (computeMetrics initial reload True) = Some (Finite 0))
     \<and> (list_all (\<lambda>r. 0 \<le> transferSize r) reload \<longrightarrow>
          (0::rat) \<le> of_int (sum_list (map transferSize (filter (\<lambda>r. \<not> fromCache r) reload)))
                     / of_int (pageWeight (computeMetrics initial reload True)))
     \<and> ((of_int (sum_list (map transferSize (filter (\<lambda>r. \<not> fromCache r) reload)))
            / of_int (pageWeight (computeMetrics initial reload True)) \<le> (1::rat))
          \<longleftrightarrow>
          sum_list (map transferSize (filter (\<lambda>r. \<not> fromCache r) reload))
            \<le> pageWeight (computeMetrics initial reload True))"
proof -
  let ?n = "sum_list (map transferSize (filter (\<lambda>r. \<not> fromCache r) reload))"
  let ?p = "pageWeight (computeMetrics initial reload True)"
  have zero: "list_all (\<lambda>r. transferSize r = 0) reload \<Longrightarrow> ?n = 0"
    by (induction reload) simp_all
  have nonneg: "list_all (\<lambda>r. 0 \<le> transferSize r) reload \<Longrightarrow> 0 \<le> ?n"
    by (induction reload) simp_all
  have le: "((of_int ?n :: rat) / of_int ?p \<le> 1) = (?n \<le> ?p)"
    using assms by (simp add: divide_le_eq)
  have ratio: "dataReloadRatio (computeMetrics initial reload True)
      = Some (Finite (of_int ?n / of_int ?p))"
    using assms by (simp add: dataReloadRatio_not_cached js_div_def)
  show ?thesis
    using zero nonneg le ratio assms by simp
qed

text \<open>
  The idle reload, where every hypothesis holds, gives 0; the worked example gives 50 bytes
  reloaded outside the cache, of 150.
\<close>

theorem dataReloadRatio_share_not_cached_example:
  "0 < pageWeight (computeMetrics example_initial example_reload_idle True)
   \<and> list_all (\<lambda>r. transferSize r = 0) example_reload_idle
   \<and> list_all (\<lambda>r. 0 \<le> transferSize r) example_reload_idle
   \<and> dataReloadRatio (computeMetrics example_initial example_reload_idle True)
        = Some (Finite 0)
   \<and> dataReloadRatio (computeMetrics example_initial example_reload True)
        = Some (Finite (1 / 3))"
  using dataReloadRatio_share_not_cached [of example_initial example_reload_idle]
    dataReloadRatio_share_not_cached [of example_initial example_reload]
  by (simp add: pageWeight_computeMetrics example_defs)

section \<open>Properties of the response handler\<close>

lemmas example_io_defs = response_def example_response_204_def example_responses_def
  example_events_def example_navigation_def example_config_def

lemma hasNoResponseBody_never: "\<not> hasNoResponseBody r"
  by (simp add: hasNoResponseBody_def)

text \<open>
  Claim C6: a response with status 204 or 304 and a method other than OPTIONS is excluded
  and no \<open>ResourceBase\<close> is appended for it. The code does not do this:
  \<open>hasNoResponseBody\<close> requires the status to be 204 and 304 at once, so it is false
  for every response. Here a 204 response to a GET request is recorded with
  \<open>resourceSize\<close> 0.
\<close>

theorem hasNoResponseBody_misses_204:
  "response_status example_response_204 = 204
   \<and> request_method example_response_204 \<noteq> ''OPTIONS''
   \<and> \<not> hasNoResponseBody example_response_204
   \<and> recordResponses [example_response_204] =
       [\<lparr>url = ''https://example.org/beacon'', resourceSize = 0, type = Xhr,
         fromCache = False, fromServiceWorker = False\<rparr>]"
  by (simp add: example_io_defs hasNoResponseBody_def recordResponses_def responseHandler_def
      isFromNonNetworkRequest_def NON_NETWORK_SCHEMES_def startsWith_def)

text \<open>
  The test \<open>url.startsWith(scheme + ':')\<close> is the same as the scheme of the URL, the
  text before its first colon, being \<open>scheme\<close>, for a scheme that holds no colon.
\<close>

lemma startsWith_scheme:
  assumes "CHR '':'' \<notin> set s"
  shows "startsWith u (s @ '':'') \<longleftrightarrow> url_scheme u = Some s"
proof
  assume "startsWith u (s @ '':'')"
  then have "take (length s + 1) u = s @ '':''" by (simp add: startsWith_def)
  then have u: "u = s @ CHR '':'' # drop (length s + 1) u"
    using append_take_drop_id [of "length s + 1" u] by simp
  have "takeWhile (\<lambda>c. c \<noteq> CHR '':'') (s @ CHR '':'' # drop (length s + 1) u)
      = takeWhile (\<lambda>c. c \<noteq> CHR '':'') s"
    by (rule takeWhile_tail) simp
  also have "\<dots> = s"
    using assms by (induction s) auto
  finally have "takeWhile (\<lambda>c. c \<noteq> CHR '':'') (s @ CHR '':'' # drop (length s + 1) u) = s" .
  moreover have "CHR '':'' \<in> set (s @ CHR '':'' # drop (length s + 1) u)" by simp
  ultimately show "url_scheme u = Some s"
    unfolding url_scheme_def by (subst u, subst (2) u) (simp only: if_True)
next
  assume a: "url_scheme u = Some s"
  then have colon: "CHR '':'' \<in> set u" and s: "takeWhile (\<lambda>c. c \<noteq> CHR '':'') u = s"
    by (auto simp: url_scheme_def split: if_splits)
  from colon have ne: "dropWhile (\<lambda>c. c \<noteq> CHR '':'') u \<noteq> []"
    by (simp add: dropWhile_eq_Nil_conv)
  from hd_dropWhile [OF ne] have "hd (dropWhile (\<lambda>c. c \<noteq> CHR '':'') u) = CHR '':''"
    by simp
  with ne obtain rest where d: "dropWhile (\<lambda>c. c \<noteq> CHR '':'') u = CHR '':'' # rest"
    by (cases "dropWhile (\<lambda>c. c \<noteq> CHR '':'') u") auto
  have "u = s @ CHR '':'' # rest"
    using takeWhile_dropWhile_id [of "\<lambda>c. c \<noteq> CHR '':''" u] s d by simp
  then show "startsWith u (s @ '':'')" by (simp add: startsWith_def)
qed

lemma isFromNonNetworkRequest_scheme:
  "isFromNonNetworkRequest r = hasNonNetworkScheme (request_url r)"
proof -
  have "\<forall>s \<in> set NON_NETWORK_SCHEMES. CHR '':'' \<notin> set s"
    by (simp add: NON_NETWORK_SCHEMES_def)
  then have "isFromNonNetworkRequest r
      \<longleftrightarrow> (\<exists>s \<in> set NON_NETWORK_SCHEMES. url_scheme (request_url r) = Some s)"
    by (auto simp: isFromNonNetworkRequest_def list_ex_iff startsWith_scheme)
  then show ?thesis
    by (auto simp: hasNonNetworkScheme_def split: option.splits)
qed

lemma responseHandler_non_network:
  "hasNonNetworkScheme (request_url r) \<Longrightarrow> responseHandler acc r = acc"
  by (simp add: responseHandler_def isFromNonNetworkRequest_scheme)

lemma foldl_responseHandler_filter:
  "foldl responseHandler acc (filter (\<lambda>r. \<not> hasNonNetworkScheme (request_url r)) rs)
     = foldl responseHandler acc rs"
  by (induction rs arbitrary: acc) (simp_all add: responseHandler_non_network)

lemma responseHandler_origin:
  "res \<in> set (responseHandler acc r) \<Longrightarrow>
   res \<in> set acc \<or> (\<not> hasNonNetworkScheme (request_url r) \<and> url res = response_url r)"
  by (auto simp: responseHandler_def isFromNonNetworkRequest_scheme
      split: if_splits option.splits)

lemma foldl_responseHandler_origin:
  "res \<in> set (foldl responseHandler acc rs) \<Longrightarrow>
   res \<in> set acc \<or>
   (\<exists>r \<in> set rs. \<not> hasNonNetworkScheme (request_url r) \<and> url res = response_url r)"
proof (induction rs arbitrary: acc)
  case Nil
  then show ?case by simp
next
  case (Cons r rs)
  from Cons.IH [of "responseHandler acc r"] Cons.prems
  have "res \<in> set (responseHandler acc r) \<or>
    (\<exists>r \<in> set rs. \<not> hasNonNetworkScheme (request_url r) \<and> url res = response_url r)"
    by simp
  then show ?case
    using responseHandler_origin [of res acc r] by auto
qed

text \<open>
  Claim C7. For every sequence of responses, a response whose request URL has a
  non-network scheme (blob, data, intent, file, filesystem, chrome-extension) adds nothing
  to the resource list, whatever its status: the list is the one recorded from the
  sequence without these responses, and every recorded resource stems from a response
  whose request URL has another scheme.
\<close>

theorem non_network_responses_not_recorded:
  "recordResponses responses
     = recordResponses (filter (\<lambda>r. \<not> hasNonNetworkScheme (request_url r)) responses)
   \<and> (\<forall>res \<in> set (recordResponses responses).
        \<exists>r \<in> set responses. \<not> hasNonNetworkScheme (request_url r) \<and> url res = response_url r)"
  using foldl_responseHandler_origin [of _ "[]" responses]
  by (simp add: recordResponses_def foldl_responseHandler_filter)


text \<open>Of three responses, the one to a \<open>data:\<close> URL is left out.\<close>

lemma example_schemes:
  "url_scheme ''https://example.org/app.js'' = Some ''https''"
  "url_scheme ''data:image/png;base64,AAAA'' = Some ''data''"
  "url_scheme ''https://example.org/logo.png'' = Some ''https''"
  by code_simp+

lemma example_data_url:
  "hasNonNetworkScheme (request_url (response ''data:image/png;base64,AAAA'' 200 ''GET'' Image (Some 3)))"
  by (simp add: response_def hasNonNetworkScheme_def example_schemes NON_NETWORK_SCHEMES_def)

lemma example_https_urls:
  "\<not> hasNonNetworkScheme (request_url (response ''https://example.org/app.js'' 200 ''GET'' Script (Some 120)))"
  "\<not> hasNonNetworkScheme (request_url (response ''https://example.org/logo.png'' 200 ''GET'' Image (Some 400)))"
  by (simp_all add: response_def hasNonNetworkScheme_def example_schemes NON_NETWORK_SCHEMES_def)

lemma example_responses_network:
  "filter (\<lambda>r. \<not> hasNonNetworkScheme (request_url r)) example_responses =
     [response ''https://example.org/app.js'' 200 ''GET'' Script (Some 120),
      response ''https://example.org/logo.png'' 200 ''GET'' Image (Some 400)]"
  by (simp add: example_responses_def example_data_url example_https_urls)

lemma example_network_recorded:
  "map url (recordResponses
     [response ''https://example.org/app.js'' 200 ''GET'' Script (Some 120),
      response ''https://example.org/logo.png'' 200 ''GET'' Image (Some 400)])
   = [''https://example.org/app.js'', ''https://example.org/logo.png'']"
  using example_https_urls
  by (simp add: recordResponses_def responseHandler_def isFromNonNetworkRequest_scheme
      hasNoResponseBody_def)
    (simp add: response_def)

theorem non_network_responses_not_recorded_example:
  "hasNonNetworkScheme (request_url (example_responses ! 1))
   \<and> map url (recordResponses example_responses)
       = [''https://example.org/app.js'', ''https://example.org/logo.png'']"
proof -
  have "recordResponses example_responses
      = recordResponses (filter (\<lambda>r. \<not> hasNonNetworkScheme (request_url r)) example_responses)"
    using non_network_responses_not_recorded [of example_responses] by (rule conjunct1)
  then have "map url (recordResponses example_responses)
      = [''https://example.org/app.js'', ''https://example.org/logo.png'']"
    by (simp only: example_responses_network example_network_recorded)
  moreover have "hasNonNetworkScheme (request_url (example_responses ! 1))"
    using example_data_url by (simp add: example_responses_def)
  ultimately show ?thesis by simp
qed

section \<open>Properties of the devtools session maps\<close>

lemma cdpListener_store_None:
  "cdpIntermediateStore maps requestId = None \<Longrightarrow>
   requestId \<notin> receivedIds [e] \<Longrightarrow>
   cdpIntermediateStore (cdpListener maps e) requestId = None"
  by (cases e) (auto split: option.splits)

lemma foldl_cdpListener_store_None:
  "cdpIntermediateStore maps requestId = None \<Longrightarrow>
   requestId \<notin> receivedIds events \<Longrightarrow>
   cdpIntermediateStore (foldl cdpListener maps events) requestId = None"
proof (induction events arbitrary: maps)
  case Nil
  then show ?case by simp
next
  case (Cons e events)
  from Cons.prems have "requestId \<notin> receivedIds [e]" "requestId \<notin> receivedIds events"
    by (cases e; simp)+
  with Cons.prems(1) Cons.IH [of "cdpListener maps e"] show ?case
    by (simp add: cdpListener_store_None)
qed

lemma cdpSession_store_None:
  "requestId \<notin> receivedIds events \<Longrightarrow>
   cdpIntermediateStore (cdpSession events) requestId = None"
  by (simp add: cdpSession_def cdpInitial_def foldl_cdpListener_store_None)

text \<open>
  Claim C8. For every sequence of devtools events, a \<open>Network.loadingFinished\<close> event
  whose request id has no earlier \<open>Network.responseReceived\<close> in the sequence leaves both
  maps as they were. The listener has no failing branch, and the map from url to
  \<open>encodedDataLength\<close> resolves exactly the urls it resolved before.
\<close>

theorem loadingFinished_without_responseReceived:
  assumes "requestId \<notin> receivedIds events"
  shows "cdpSession (events @ [LoadingFinished requestId encodedDataLength]) = cdpSession events
    \<and> cdpResponses (cdpSession (events @ [LoadingFinished requestId encodedDataLength]))
        = cdpResponses (cdpSession events)"
proof -
  have "cdpSession (events @ [LoadingFinished requestId encodedDataLength])
      = cdpListener (cdpSession events) (LoadingFinished requestId encodedDataLength)"
    by (simp add: cdpSession_def)
  also have "\<dots> = cdpSession events"
    using cdpSession_store_None [OF assms] by simp
  finally show ?thesis by simp
qed

text \<open>After a received and finished request 1, a finished request 2 changes nothing.\<close>

lemma example_events_session:
  "cdpResponses (cdpSession example_events) = [''https://example.org/app.js'' \<mapsto> 50]"
  by (simp add: example_events_def cdpSession_def cdpInitial_def)

theorem loadingFinished_without_responseReceived_example:
  "''2'' \<notin> receivedIds example_events
   \<and> cdpResponses (cdpSession (example_events @ [LoadingFinished ''2'' 70]))
        = [''https://example.org/app.js'' \<mapsto> 50]"
proof -
  have h: "''2'' \<notin> receivedIds example_events"
    by (simp add: example_events_def)
  from loadingFinished_without_responseReceived [OF h, of 70] example_events_session h show ?thesis
    by simp
qed

section \<open>Properties of mergeCdpResponsesIntoResources\<close>

lemmas example_merge_defs = resourceBase_def example_pageResources_def example_cdpResponses_def

text \<open>
  Claim C9. For every list of \<open>ResourceBase\<close> records and every map of finished
  transfers the merge returns one \<open>Resource\<close> per record (it is a total function with no
  failing branch): the \<open>transferSize\<close> of a record whose url is in the map is the
  \<open>encodedDataLength\<close> stored for it, the \<open>transferSize\<close> of a record whose url is not
  in the map is 0, and one warning is written for each such record, in order.
\<close>

theorem merge_transferSize:
  "length (mergeCdpResponsesIntoResources pageResources responses) = length pageResources
   \<and> (\<forall>i < length pageResources.
        transferSize (mergeCdpResponsesIntoResources pageResources responses ! i)
          = (case responses (url (pageResources ! i)) of
               Some encodedDataLength \<Rightarrow> encodedDataLength
             | None \<Rightarrow> 0))
   \<and> mergeCdpResponsesIntoResources_console pageResources responses
        = map (\<lambda>resource. Warn [''No encoded data length for resource: '', url resource])
            (filter (\<lambda>resource. responses (url resource) = None) pageResources)"
proof -
  have "mergeCdpResponsesIntoResources_console pageResources responses
      = map (\<lambda>resource. Warn [''No encoded data length for resource: '', url resource])
          (filter (\<lambda>resource. responses (url resource) = None) pageResources)"
    unfolding mergeCdpResponsesIntoResources_console_def
    by (induction pageResources) (auto simp: mergeResource_def split: option.splits)
  then show ?thesis
    by (simp add: mergeCdpResponsesIntoResources_def mergeResource_def split: option.splits)
qed

text \<open>Two records, the second without a finished transfer: sizes 50 and 0, one warning.\<close>

theorem merge_transferSize_example:
  "length example_pageResources = 2
   \<and> map transferSize (mergeCdpResponsesIntoResources example_pageResources example_cdpResponses)
     = [50, 0]
   \<and> mergeCdpResponsesIntoResources_console example_pageResources example_cdpResponses
     = [Warn [''No encoded data length for resource: '', ''https://example.org/logo.png'']]"
  using merge_transferSize [of example_pageResources example_cdpResponses]
  by (simp add: example_merge_defs mergeCdpResponsesIntoResources_def mergeResource_def)

text \<open>
  Claim C10. The merge returns a list of the same length and order as its input, and every
  output \<open>Resource\<close> has the \<open>url\<close>, \<open>resourceSize\<close>, \<open>type\<close>, \<open>fromCache\<close> and
  \<open>fromServiceWorker\<close> of the input record at the same position: dropping
  \<open>transferSize\<close> from the output gives the input back.
\<close>

theorem merge_keeps_base_fields:
  "length (mergeCdpResponsesIntoResources pageResources responses) = length pageResources
   \<and> (\<forall>i < length pageResources.
        url (mergeCdpResponsesIntoResources pageResources responses ! i) = url (pageResources ! i)
        \<and> resourceSize (mergeCdpResponsesIntoResources pageResources responses ! i)
            = resourceSize (pageResources ! i)
        \<and> type (mergeCdpResponsesIntoResources pageResources responses ! i)
            = type (pageResources ! i)
        \<and> fromCache (mergeCdpResponsesIntoResources pageResources responses ! i)
            = fromCache (pageResources ! i)
        \<and> fromServiceWorker (mergeCdpResponsesIntoResources pageResources responses ! i)
            = fromServiceWorker (pageResources ! i))
   \<and> map ResourceBase.truncate (mergeCdpResponsesIntoResources pageResources responses)
        = pageResources"
proof -
  have "ResourceBase.truncate (snd (mergeResource responses r)) = r" for r
    by (simp add: mergeResource_def ResourceBase.truncate_def split: option.splits)
  then have "map ResourceBase.truncate (mergeCdpResponsesIntoResources pageResources responses)
      = pageResources"
    by (simp add: mergeCdpResponsesIntoResources_def comp_def)
  then show ?thesis
    by (simp add: mergeCdpResponsesIntoResources_def mergeResource_def split: option.splits)
qed

text \<open>The two example records come back unchanged.\<close>

theorem merge_keeps_base_fields_example:
  "map ResourceBase.truncate
     (mergeCdpResponsesIntoResources example_pageResources example_cdpResponses)
   = [resourceBase ''https://example.org/app.js'' Script 120,
      resourceBase ''https://example.org/logo.png'' Image 400]"
  using merge_keeps_base_fields [of example_pageResources example_cdpResponses]
  by (simp add: example_pageResources_def)

section \<open>Properties of measurePageImpactMetrics and execute\<close>

text \<open>The example navigation, measured twice under the configuration that supplies 1/2.\<close>

lemma example_navigation_resources:
  "loadPageResources example_navigation =
     Inr [\<lparr>url = ''https://example.org/app.js'', resourceSize = 120, type = Script,
           fromCache = False, fromServiceWorker = False, transferSize = 50\<rparr>,
          \<lparr>url = ''https://example.org/logo.png'', resourceSize = 400, type = Image,
           fromCache = False, fromServiceWorker = False, transferSize = 0\<rparr>]"
  by (simp add: loadPageResources_def example_io_defs recordResponses_def responseHandler_def
      isFromNonNetworkRequest_def NON_NETWORK_SCHEMES_def startsWith_def hasNoResponseBody_def
      cdpSession_def cdpInitial_def mergeCdpResponsesIntoResources_def mergeResource_def)

lemma example_config_supplied:
  "config_dataReloadRatio example_config = Some (Finite (1 / 2))"
  by (simp add: config_dataReloadRatio_def example_config_def)

lemma example_navigation_metrics:
  "measurePageImpactMetrics example_config example_navigation example_navigation =
     Inr \<lparr>pageWeight = 50, resourceTypeWeights = [(Script, 50), (Image, 0)],
          dataReloadRatio = None\<rparr>"
  by (simp add: measurePageImpactMetrics_def example_navigation_resources computeReloadRatio_def
      example_config_supplied computeMetrics_def addResourceTypeWeight_def)

text \<open>
  Claim C5, as the spec states it: a \<open>dataReloadRatio\<close> supplied in the configuration is
  not recomputed and is the value that reaches the output. The second part fails: with
  the ratio 1/2 supplied, an input without options gets an output without options, and an
  input whose options hold the ratio 1/2 gets an output whose
  \<open>options.dataReloadRatio\<close> is \<open>undefined\<close>.
\<close>

theorem supplied_ratio_not_in_output:
  "config_dataReloadRatio example_config = Some (Finite (1 / 2))
   \<and> execute_input example_config None example_navigation example_navigation
       = Inr \<lparr>network_data_bytes = 50,
              network_data_resources_bytes = [(Script, 50), (Image, 0)],
              output_options = (None :: (string \<rightharpoonup> unit jsval) option)\<rparr>
   \<and> execute_input example_config example_input_options example_navigation example_navigation
       = Inr \<lparr>network_data_bytes = 50,
              network_data_resources_bytes = [(Script, 50), (Image, 0)],
              output_options = Some [''dataReloadRatio'' \<mapsto> Undefined]\<rparr>"
  by (simp add: example_config_supplied execute_input_def example_navigation_metrics
      example_input_options_def)

text \<open>
  A supplied ratio of 0 is falsy, so \<open>!config?.options?.dataReloadRatio\<close> is true and
  the ratio is computed all the same.
\<close>

lemma supplied_zero_is_recomputed:
  "config_dataReloadRatio example_config_zero = Some (Finite 0)
   \<and> computeReloadRatio example_config_zero
   \<and> dataReloadRatio (computeMetrics example_initial example_reload
        (computeReloadRatio example_config_zero)) = Some (Finite (1 / 3))"
  by (simp add: config_dataReloadRatio_def example_config_zero_def computeReloadRatio_def
      dataReloadRatio_not_cached pageWeight_computeMetrics js_div_def example_defs)

text \<open>
  Claim C5, amended. When the configuration supplies a \<open>dataReloadRatio\<close> other than 0,
  \<open>computeReloadRatio\<close> is false and \<open>computeMetrics\<close> returns \<open>dataReloadRatio =
  undefined\<close>: nothing is recomputed. The output does not carry the supplied value: its
  options are the options of the input with the key \<open>dataReloadRatio\<close> set to
  \<open>undefined\<close>, and an input without options gets an output without options.
\<close>

theorem supplied_ratio_not_recomputed:
  assumes "config_dataReloadRatio config = Some supplied" and "truthy (Some supplied)"
  shows "\<not> computeReloadRatio config
     \<and> dataReloadRatio (computeMetrics initialResources reloadResources
          (computeReloadRatio config)) = None
     \<and> (\<forall>out. execute_input config input_options initialLoad reload = Inr out \<longrightarrow>
          output_options out =
            (case input_options of
               None \<Rightarrow> None
             | Some opts \<Rightarrow> Some (opts(''dataReloadRatio'' \<mapsto> Undefined))))"
proof -
  have c: "\<not> computeReloadRatio config"
    using assms by (simp add: computeReloadRatio_def)
  then have d: "dataReloadRatio (computeMetrics i r (computeReloadRatio config)) = None" for i r
    by (simp add: dataReloadRatio_computeMetrics)
  have "output_options out =
      (case input_options of None \<Rightarrow> None | Some opts \<Rightarrow> Some (opts(''dataReloadRatio'' \<mapsto> Undefined)))"
    if "execute_input config input_options initialLoad reload = Inr out" for out
    using that d
    by (auto simp: execute_input_def measurePageImpactMetrics_def split: sum.splits option.splits)
  with c d show ?thesis by blast
qed

text \<open>The configuration that supplies 1/2, on an input whose options hold 1/2.\<close>

theorem supplied_ratio_not_recomputed_example:
  "config_dataReloadRatio example_config = Some (Finite (1 / 2))
   \<and> truthy (Some (Finite (1 / 2)))
   \<and> \<not> computeReloadRatio example_config
   \<and> dataReloadRatio (computeMetrics example_initial example_reload
        (computeReloadRatio example_config)) = None
   \<and> map_sum id output_options
        (execute_input example_config example_input_options example_navigation
           example_navigation)
       = Inr (Some [''dataReloadRatio'' \<mapsto> Undefined])"
proof -
  have t: "truthy (Some (Finite (1 / 2)))" by simp
  have e: "execute_input example_config example_input_options example_navigation
      example_navigation
    = Inr \<lparr>network_data_bytes = 50,
           network_data_resources_bytes = [(Script, 50), (Image, 0)],
           output_options = Some [''dataReloadRatio'' \<mapsto> Undefined]\<rparr>"
    by (simp add: execute_input_def example_navigation_metrics example_input_options_def)
  from supplied_ratio_not_recomputed [OF example_config_supplied t, of example_initial example_reload
      example_input_options example_navigation example_navigation]
  show ?thesis
    using example_config_supplied t by (auto simp: e)
qed


end
